theory Spec2Isabelle
  imports Main "HOL-Library.AList"
begin

section \<open>Strings\<close>

text \<open>
  A TypeScript string is a sequence of UTF-16 code units. It is modelled as a HOL
  \<open>string\<close>, one \<open>char\<close> per code unit, which covers the code units below 256
  (ASCII and Latin-1). On that range the three string primitives the server uses are
  written out as ECMAScript defines them: the class \<open>\s\<close> of the regular expression
  (also the characters \<open>trim\<close> removes), and \<open>toLowerCase\<close>.
\<close>

definition is_space :: "char \<Rightarrow> bool" where
  "is_space c = (of_char c \<in> {9, 10, 11, 12, 13, 32, 160 :: nat})"

definition lower_char :: "char \<Rightarrow> char" where
  "lower_char c =
     (let n = (of_char c :: nat) in
      if (65 \<le> n \<and> n \<le> 90) \<or> (192 \<le> n \<and> n \<le> 222 \<and> n \<noteq> 215)
      then char_of (n + 32) else c)"

definition toLowerCase :: "string \<Rightarrow> string" where
  "toLowerCase s = map lower_char s"

text \<open>\<^verbatim>\<open>s.replace(/\s+/g, "_")\<close>: scanning from the left, every maximal match of
  \<open>\s+\<close> is replaced by one underscore.\<close>

function replace_ws :: "string \<Rightarrow> string" where
  "replace_ws [] = []"
| "replace_ws (c # cs) =
     (if is_space c then CHR ''_'' # replace_ws (dropWhile is_space cs)
      else c # replace_ws cs)"
  by pat_completeness auto
termination
  by (relation "measure length") (auto simp: length_dropWhile_le less_Suc_eq_le)

text \<open>\<^verbatim>\<open>s.trim()\<close>.\<close>

definition trim :: "string \<Rightarrow> string" where
  "trim s = rev (dropWhile is_space (rev (dropWhile is_space s)))"

text \<open>\<^verbatim>\<open>xs.join(sep)\<close>.\<close>

fun join :: "string \<Rightarrow> string list \<Rightarrow> string" where
  "join sep [] = []"
| "join sep [x] = x"
| "join sep (x # y # ys) = x @ sep @ join sep (y # ys)"

text \<open>The decimal numeral of a natural number, as a template literal prints it.\<close>

fun showNat :: "nat \<Rightarrow> string" where
  "showNat n =
     (if n < 10 then [char_of (48 + n)]
      else showNat (n div 10) @ [char_of (48 + n mod 10)])"

declare showNat.simps [simp del]

definition showInt :: "int \<Rightarrow> string" where
  "showInt i = (if i < 0 then CHR ''-'' # showNat (nat (- i)) else showNat (nat i))"

section \<open>Tool names\<close>

text \<open>What the server reads of a client: its name, its prefix, and the answer of
  \<^verbatim>\<open>isConfigured()\<close> at the time of the call.\<close>

record client =
  name :: string
  toolPrefix :: string
  isConfigured :: bool

text \<open>Lines 61 to 64 of \<^verbatim>\<open>addClient\<close>.\<close>

definition rawToolName :: "string \<Rightarrow> string \<Rightarrow> string" where
  "rawToolName prefix title = prefix @ ''_'' @ toLowerCase (replace_ws title)"

definition toolName :: "string \<Rightarrow> string \<Rightarrow> string" where
  "toolName prefix title =
     (let raw = rawToolName prefix title in
      if length raw > 64 then take 64 raw else raw)"

definition toolTitle :: "string \<Rightarrow> string \<Rightarrow> string" where
  "toolTitle client_name title = client_name @ '': '' @ title"

section \<open>JSON values and \<^verbatim>\<open>JSON.stringify\<close>\<close>

text \<open>
  The values handed to \<^verbatim>\<open>JSON.stringify\<close>: defaults of a schema, the parameters of an
  example, the structured content of a result. Numbers are the integer-valued ones; an
  object is the list of its properties in own-property order.
\<close>

datatype json =
    JNull
  | JBool bool
  | JNum int
  | JStr string
  | JArr "json list"
  | JObj "(string \<times> json) list"

definition hex_digit :: "nat \<Rightarrow> char" where
  "hex_digit n = (if n < 10 then char_of (48 + n) else char_of (87 + n))"

text \<open>\<^verbatim>\<open>QuoteJSONString\<close> of ECMAScript, on code units below 256.\<close>

definition escape_char :: "char \<Rightarrow> string" where
  "escape_char c =
     (let n = (of_char c :: nat) in
      if n = 8 then [CHR 0x5C, CHR ''b'']
      else if n = 9 then [CHR 0x5C, CHR ''t'']
      else if n = 10 then [CHR 0x5C, CHR ''n'']
      else if n = 12 then [CHR 0x5C, CHR ''f'']
      else if n = 13 then [CHR 0x5C, CHR ''r'']
      else if n = 34 then [CHR 0x5C, CHR 0x22]
      else if n = 92 then [CHR 0x5C, CHR 0x5C]
      else if n < 32 then [CHR 0x5C, CHR ''u'', CHR ''0'', CHR ''0'',
                           hex_digit (n div 16), hex_digit (n mod 16)]
      else [c])"

definition quote :: "string \<Rightarrow> string" where
  "quote s = [CHR 0x22] @ concat (map escape_char s) @ [CHR 0x22]"

text \<open>\<^verbatim>\<open>JSON.stringify(v)\<close>.\<close>

fun stringify :: "json \<Rightarrow> string" where
  "stringify JNull = ''null''"
| "stringify (JBool b) = (if b then ''true'' else ''false'')"
| "stringify (JNum i) = showInt i"
| "stringify (JStr s) = quote s"
| "stringify (JArr vs) = ''['' @ join '','' (map stringify vs) @ '']''"
| "stringify (JObj kvs) =
     ''{'' @ join '','' (map (\<lambda>kv. quote (fst kv) @ '':'' @ stringify (snd kv)) kvs) @ ''}''"

text \<open>\<^verbatim>\<open>JSON.stringify(v, null, 2)\<close>; \<open>ind\<close> is the current indentation.\<close>

fun stringify2 :: "string \<Rightarrow> json \<Rightarrow> string" where
  "stringify2 ind (JArr vs) =
     (if vs = [] then ''[]''
      else ''['' @ [CHR 0x0A] @ ind @ ''  '' @
           join ('','' @ [CHR 0x0A] @ ind @ ''  '') (map (stringify2 (ind @ ''  '')) vs) @
           [CHR 0x0A] @ ind @ '']'')"
| "stringify2 ind (JObj kvs) =
     (if kvs = [] then ''{}''
      else ''{'' @ [CHR 0x0A] @ ind @ ''  '' @
           join ('','' @ [CHR 0x0A] @ ind @ ''  '')
             (map (\<lambda>kv. quote (fst kv) @ '': '' @ stringify2 (ind @ ''  '') (snd kv)) kvs) @
           [CHR 0x0A] @ ind @ ''}'')"
| "stringify2 ind v = stringify v"

section \<open>Schemas\<close>

text \<open>
  A schema of the validation library, by its class. Every schema carries the description
  that \<^verbatim>\<open>.description\<close> reads, if it has one. The shape of an object schema is the list
  of its fields in the order \<^verbatim>\<open>Object.keys\<close> gives them. \<open>ZodOther\<close> stands for the
  classes the server does not test for (nullable, tuple, date and so on), by name.
\<close>

datatype zod =
    ZodString "string option"
  | ZodNumber "string option"
  | ZodBoolean "string option"
  | ZodArray "string option" zod
  | ZodObject "string option" "(string \<times> zod) list"
  | ZodRecord "string option" zod zod
  | ZodEnum "string option" "string list"
  | ZodLiteral "string option" json
  | ZodUnion "string option" "zod list"
  | ZodIntersection "string option" zod zod
  | ZodOptional "string option" zod
  | ZodDefault "string option" zod json
  | ZodAny "string option"
  | ZodOther "string option" string

fun description :: "zod \<Rightarrow> string option" where
  "description (ZodString d) = d"
| "description (ZodNumber d) = d"
| "description (ZodBoolean d) = d"
| "description (ZodArray d _) = d"
| "description (ZodObject d _) = d"
| "description (ZodRecord d _ _) = d"
| "description (ZodEnum d _) = d"
| "description (ZodLiteral d _) = d"
| "description (ZodUnion d _) = d"
| "description (ZodIntersection d _ _) = d"
| "description (ZodOptional d _) = d"
| "description (ZodDefault d _ _) = d"
| "description (ZodAny d) = d"
| "description (ZodOther d _) = d"

text \<open>\<^verbatim>\<open>schema.describe(d)\<close> and \<^verbatim>\<open>schema.optional()\<close>.\<close>

fun describe :: "string \<Rightarrow> zod \<Rightarrow> zod" where
  "describe d (ZodString _) = ZodString (Some d)"
| "describe d (ZodNumber _) = ZodNumber (Some d)"
| "describe d (ZodBoolean _) = ZodBoolean (Some d)"
| "describe d (ZodArray _ e) = ZodArray (Some d) e"
| "describe d (ZodObject _ shape) = ZodObject (Some d) shape"
| "describe d (ZodRecord _ k v) = ZodRecord (Some d) k v"
| "describe d (ZodEnum _ vs) = ZodEnum (Some d) vs"
| "describe d (ZodLiteral _ v) = ZodLiteral (Some d) v"
| "describe d (ZodUnion _ os) = ZodUnion (Some d) os"
| "describe d (ZodIntersection _ l r) = ZodIntersection (Some d) l r"
| "describe d (ZodOptional _ t) = ZodOptional (Some d) t"
| "describe d (ZodDefault _ t v) = ZodDefault (Some d) t v"
| "describe d (ZodAny _) = ZodAny (Some d)"
| "describe d (ZodOther _ c) = ZodOther (Some d) c"

definition optional :: "zod \<Rightarrow> zod" where
  "optional t = ZodOptional None t"

text \<open>
  Modelled from the spec: \<^verbatim>\<open>unwrapZodType\<close> of \<^verbatim>\<open>zod-utils\<close>, which is imported by the
  server and is not among the sources. The specification says of it: recursively strips
  \<open>optional\<close> and \<open>default\<close> wrapper kinds and returns the first non-wrapper node
  reached.
\<close>

fun unwrapZodType :: "zod \<Rightarrow> zod" where
  "unwrapZodType (ZodOptional _ t) = unwrapZodType t"
| "unwrapZodType (ZodDefault _ t _) = unwrapZodType t"
| "unwrapZodType t = t"

function getReadableTypeName :: "zod \<Rightarrow> string" where
  "getReadableTypeName zodType =
     (case unwrapZodType zodType of
        ZodRecord _ keyType valueType \<Rightarrow>
          ''record<'' @ getReadableTypeName keyType @ '', '' @
          getReadableTypeName valueType @ ''>''
      | ZodString _ \<Rightarrow> ''string''
      | ZodNumber _ \<Rightarrow> ''number''
      | ZodBoolean _ \<Rightarrow> ''boolean''
      | ZodArray _ _ \<Rightarrow> ''array''
      | ZodObject _ _ \<Rightarrow> ''object''
      | ZodEnum _ _ \<Rightarrow> ''enum''
      | ZodLiteral _ _ \<Rightarrow> ''literal''
      | ZodUnion _ _ \<Rightarrow> ''union''
      | ZodAny _ \<Rightarrow> ''any''
      | _ \<Rightarrow> ''any'')"
  by pat_completeness auto
termination
proof -
  have le: "size (unwrapZodType t) \<le> size t" for t
    by (induction t rule: unwrapZodType.induct) simp_all
  have lt: "size k < size z \<and> size v < size z"
    if "unwrapZodType z = ZodRecord d k v" for z d k v
    using le [of z] that by simp
  show ?thesis
    by (relation "measure size") (auto dest: lt)
qed

declare getReadableTypeName.simps [simp del]

text \<open>
  Copying the own properties of \<open>src\<close> onto \<open>target\<close>, one assignment after the other: an
  existing key keeps its place and takes the new value, a new key goes to the end. The
  object literal \<^verbatim>\<open>{ ...a, ...b }\<close> copies \<open>a\<close> and then \<open>b\<close> onto a fresh object;
  spreading \<^verbatim>\<open>undefined\<close> copies nothing.
\<close>

definition assign :: "(string \<times> 'v) list \<Rightarrow> (string \<times> 'v) list \<Rightarrow> (string \<times> 'v) list" where
  "assign target src = fold (\<lambda>kv. AList.update (fst kv) (snd kv)) src target"

definition own_properties :: "(string \<times> 'v) list option \<Rightarrow> (string \<times> 'v) list" where
  "own_properties obj = (case obj of None \<Rightarrow> [] | Some props \<Rightarrow> props)"

definition spread :: "(string \<times> 'v) list option \<Rightarrow> (string \<times> 'v) list option
    \<Rightarrow> (string \<times> 'v) list" where
  "spread a b = assign (assign [] (own_properties a)) (own_properties b)"

fun schemaToRawShape :: "zod option \<Rightarrow> (string \<times> zod) list option" where
  "schemaToRawShape None = None"
| "schemaToRawShape (Some (ZodObject _ shape)) = Some shape"
| "schemaToRawShape (Some (ZodIntersection _ left right)) =
     (let leftShape = schemaToRawShape (Some left);
          rightShape = schemaToRawShape (Some right)
      in Some (spread leftShape rightShape))"
| "schemaToRawShape (Some _) = None"

section \<open>Tool parameters\<close>

record parameter =
  p_name :: string
  p_type :: zod
  p_required :: bool
  p_description :: "string option"
  p_examples :: "string list option"
  p_constraints :: "string list option"

record example =
  ex_description :: string
  ex_parameters :: json
  ex_expectedOutput :: "string option"

record tool_params =
  title :: string
  summary :: string
  parameters :: "parameter list option"
  inputSchema :: "zod option"
  outputSchema :: "zod option"
  useCases :: "string list option"
  examples :: "example list option"
  hints :: "string list option"
  outputDescription :: "string option"
  readOnly :: "bool option"
  destructive :: "bool option"
  idempotent :: "bool option"
  openWorld :: "bool option"

text \<open>A string in a condition: the empty string counts as false, as a missing one does.\<close>

definition truthy :: "string option \<Rightarrow> bool" where
  "truthy s = (case s of None \<Rightarrow> False | Some t \<Rightarrow> t \<noteq> [])"

record annotations =
  a_title :: string
  readOnlyHint :: bool
  destructiveHint :: bool
  idempotentHint :: bool
  openWorldHint :: bool

definition getAnnotations :: "string \<Rightarrow> tool_params \<Rightarrow> annotations" where
  "getAnnotations tool_title params =
     \<lparr>a_title = tool_title,
      readOnlyHint = (case readOnly params of None \<Rightarrow> True | Some b \<Rightarrow> b),
      destructiveHint = (case destructive params of None \<Rightarrow> False | Some b \<Rightarrow> b),
      idempotentHint = (case idempotent params of None \<Rightarrow> True | Some b \<Rightarrow> b),
      openWorldHint = (case openWorld params of None \<Rightarrow> False | Some b \<Rightarrow> b)\<rparr>"

text \<open>The loop of \<^verbatim>\<open>getInputSchema\<close>: one parameter, added to \<open>args\<close>.\<close>

definition add_param :: "parameter \<Rightarrow> (string \<times> zod) list \<Rightarrow> (string \<times> zod) list" where
  "add_param param args =
     (let t0 = p_type param;
          t1 = (case p_description param of
                  None \<Rightarrow> t0
                | Some d \<Rightarrow> if d \<noteq> [] then describe d t0 else t0);
          t2 = (if \<not> p_required param then optional t1 else t1)
      in AList.update (p_name param) t2 args)"

definition getInputSchema :: "tool_params \<Rightarrow> (string \<times> zod) list" where
  "getInputSchema params =
     (let args = fold add_param (case parameters params of None \<Rightarrow> [] | Some ps \<Rightarrow> ps) []
      in spread (Some args) (schemaToRawShape (inputSchema params)))"

definition getOutputSchema :: "tool_params \<Rightarrow> (string \<times> zod) list option" where
  "getOutputSchema params = schemaToRawShape (outputSchema params)"

section \<open>The description of a tool\<close>

definition nl :: string where
  "nl = [CHR 0x0A]"

definition fence :: string where
  "fence = [CHR 0x60, CHR 0x60, CHR 0x60]"

text \<open>\<^verbatim>\<open>a ?? (b || null)\<close> on descriptions.\<close>

definition coalesce :: "string option \<Rightarrow> string option \<Rightarrow> string option" where
  "coalesce a b = (case a of Some x \<Rightarrow> Some x | None \<Rightarrow> (if truthy b then b else None))"

text \<open>\<^verbatim>\<open>cond ? prefix + s : ""\<close> for a string \<open>s\<close> that is also the condition.\<close>

definition if_truthy :: "string option \<Rightarrow> string \<Rightarrow> string \<Rightarrow> string" where
  "if_truthy s pre post =
     (case s of None \<Rightarrow> [] | Some t \<Rightarrow> if t \<noteq> [] then pre @ t @ post else [])"

fun formatParameterDescription ::
    "string \<Rightarrow> zod \<Rightarrow> string option \<Rightarrow> bool \<Rightarrow> string option \<Rightarrow> string" where
  "formatParameterDescription key (ZodOptional d field) descr isOptional defaultValue =
     formatParameterDescription key field (coalesce descr d) True defaultValue"
| "formatParameterDescription key (ZodDefault d field v) descr isOptional defaultValue =
     formatParameterDescription key field (coalesce descr d) True (Some (stringify v))"
| "formatParameterDescription key field descr isOptional defaultValue =
     ''- '' @ key @ '' ('' @ getReadableTypeName field @ '')'' @
     (if isOptional then [] else '' *required*'') @
     if_truthy (coalesce descr (description field)) '': '' [] @
     if_truthy defaultValue '' (default: '' '')''"

text \<open>The line of one explicit parameter (lines 239 to 242).\<close>

definition parameter_line :: "parameter \<Rightarrow> string" where
  "parameter_line p =
     ''- '' @ p_name p @ '' ('' @ getReadableTypeName (p_type p) @ '')'' @
     (if p_required p then '' *required*'' else []) @
     if_truthy (p_description p) '': '' [] @
     (case p_examples p of
        None \<Rightarrow> []
      | Some es \<Rightarrow> '' (e.g. '' @ join '', '' es @ '')'') @
     (case p_constraints p of
        None \<Rightarrow> []
      | Some cs \<Rightarrow> nl @ ''  - '' @ join (nl @ ''  - '') cs)"

definition numbered :: "string list \<Rightarrow> string" where
  "numbered xs =
     join '' '' (map (\<lambda>ix. showNat (fst ix + 1) @ ''. '' @ snd ix) (enumerate 0 xs))"

definition example_text :: "nat \<times> example \<Rightarrow> string" where
  "example_text ix =
     showNat (fst ix + 1) @ ''. '' @ ex_description (snd ix) @ nl @
     fence @ ''json'' @ nl @ stringify2 [] (ex_parameters (snd ix)) @ nl @ fence @
     if_truthy (ex_expectedOutput (snd ix)) (nl @ ''Expected Output: '') []"

text \<open>
  \<^verbatim>\<open>getDescription\<close>: the sections are appended one after the other to the summary, and
  the text is trimmed. The fields of an object schema are visited in the order of its
  shape.
\<close>

definition getDescription :: "tool_params \<Rightarrow> string" where
  "getDescription params =
     (let d0 = summary params;
          d1 = (case parameters params of
                  None \<Rightarrow> d0
                | Some ps \<Rightarrow>
                    if length ps > 0
                    then d0 @ nl @ nl @ ''**Parameters:**'' @ nl @
                         join nl (map parameter_line ps)
                    else d0);
          d2 = (case inputSchema params of
                  Some (ZodObject _ shape) \<Rightarrow>
                    d1 @ nl @ nl @ ''**Parameters:**'' @ nl @
                    join nl (map (\<lambda>kv. formatParameterDescription (fst kv) (snd kv)
                                          None False None) shape)
                | _ \<Rightarrow> d1);
          d3 = d2 @ if_truthy (outputDescription params)
                      (nl @ nl @ ''**Output Description:** '') [];
          d4 = (case useCases params of
                  None \<Rightarrow> d3
                | Some ucs \<Rightarrow>
                    if length ucs > 0
                    then d3 @ nl @ nl @ ''**Use Cases:** '' @ numbered ucs
                    else d3);
          d5 = (case examples params of
                  None \<Rightarrow> d4
                | Some exs \<Rightarrow>
                    if length exs > 0
                    then d4 @ nl @ nl @ ''**Examples:**'' @ nl @
                         join (nl @ nl) (map example_text (enumerate 0 exs))
                    else d4);
          d6 = (case hints params of
                  None \<Rightarrow> d5
                | Some hs \<Rightarrow>
                    if length hs > 0
                    then d5 @ nl @ nl @ ''**Hints:** '' @ numbered hs
                    else d5)
      in trim d6)"

section \<open>The guarded invocation of a tool\<close>

datatype content_block = TextContent string | OtherContent string

text \<open>A \<^verbatim>\<open>CallToolResult\<close>. Each of its three properties may be missing.\<close>

record call_tool_result =
  isError :: "bool option"
  content :: "content_block list option"
  structuredContent :: "(string \<times> json) list option"

text \<open>What can be thrown: an instance of \<^verbatim>\<open>ToolError\<close>, or any other error; each carries
  its message.\<close>

datatype js_error = ToolError string | Error string

text \<open>What the client's callback resolves to, and how a call of it ends.\<close>

datatype cb_value = Undefined | Null | Result call_tool_result

datatype cb_outcome = Resolves cb_value | Throws js_error

text \<open>One call of \<^verbatim>\<open>Bugsnag.notify\<close>: the error, the \<open>tool\<close> entry of the metadata
  section \<open>app\<close>, and the flag \<open>unhandled\<close> of the event.\<close>

record bugsnag_event =
  error :: js_error
  app_tool :: string
  unhandled :: bool

text \<open>The effects of an invocation: the notifications sent, and the arguments of every
  call of the client's callback.\<close>

record 'a world =
  notifications :: "bugsnag_event list"
  cb_calls :: "'a list"

definition validateCallbackResult ::
    "call_tool_result \<Rightarrow> tool_params \<Rightarrow> js_error + unit" where
  "validateCallbackResult result params =
     (if isError result = Some True then Inr ()
      else if outputSchema params \<noteq> None \<and> structuredContent result = None
      then Inl (Error (''The result of the tool '' @ [CHR 0x27] @ title params @ [CHR 0x27] @
                       '' must include '' @ [CHR 0x27] @ ''structuredContent'' @ [CHR 0x27]))
      else Inr ())"

definition addStructuredContentAsText :: "call_tool_result \<Rightarrow> call_tool_result" where
  "addStructuredContentAsText result =
     (case structuredContent result of
        None \<Rightarrow> result
      | Some sc \<Rightarrow>
          (if (case content result of None \<Rightarrow> True | Some cs \<Rightarrow> length cs = 0)
           then result\<lparr>content := Some [TextContent (stringify (JObj sc))]\<rparr>
           else result))"

definition not_configured_message :: "string \<Rightarrow> string" where
  "not_configured_message client_name =
     ''The tool is not configured - configuration options for '' @ client_name @
     '' are missing or invalid.''"

text \<open>The body of the \<^verbatim>\<open>try\<close> block (lines 76 to 86): the value returned or the error
  thrown, and the world after it.\<close>

definition try_block ::
    "client \<Rightarrow> tool_params \<Rightarrow> ('a \<Rightarrow> cb_outcome) \<Rightarrow> 'a \<Rightarrow> 'a world
     \<Rightarrow> (js_error + cb_value) \<times> 'a world" where
  "try_block cl params cb args w =
     (if \<not> isConfigured cl then (Inl (ToolError (not_configured_message (name cl))), w)
      else
        let w1 = w\<lparr>cb_calls := cb_calls w @ [args]\<rparr> in
        case cb args of
          Throws e \<Rightarrow> (Inl e, w1)
        | Resolves Undefined \<Rightarrow> (Inr Undefined, w1)
        | Resolves Null \<Rightarrow> (Inr Null, w1)
        | Resolves (Result result) \<Rightarrow>
            (case validateCallbackResult result params of
               Inl e \<Rightarrow> (Inl e, w1)
             | Inr _ \<Rightarrow> (Inr (Result (addStructuredContentAsText result)), w1)))"

text \<open>The handler registered for the tool (lines 74 to 107): the \<^verbatim>\<open>try\<close> block and its
  \<^verbatim>\<open>catch\<close>. \<open>Inl e\<close> is the error the handler throws to the host.\<close>

definition handler ::
    "client \<Rightarrow> tool_params \<Rightarrow> ('a \<Rightarrow> cb_outcome) \<Rightarrow> 'a \<Rightarrow> 'a world
     \<Rightarrow> (js_error + cb_value) \<times> 'a world" where
  "handler cl params cb args w =
     (case try_block cl params cb args w of
        (Inr v, w1) \<Rightarrow> (Inr v, w1)
      | (Inl (ToolError m), w1) \<Rightarrow>
          (Inr (Result \<lparr>isError = Some True,
                        content = Some [TextContent (''Error executing '' @
                                    toolTitle (name cl) (title params) @ '': '' @ m)],
                        structuredContent = None\<rparr>), w1)
      | (Inl e, w1) \<Rightarrow>
          (Inl e,
           w1\<lparr>notifications := notifications w1 @
                 [\<lparr>error = e, app_tool = toolName (toolPrefix cl) (title params), unhandled = True\<rparr>]\<rparr>))"

section \<open>The name of a tool, in the words of the specification\<close>

text \<open>
  The specification speaks of the runs of whitespace of the title. \<open>runs P xs\<close> cuts
  \<open>xs\<close> into its maximal runs of elements on which \<open>P\<close> has the same value, each with
  that value; \<open>underscore_runs\<close> puts one underscore for each run of whitespace and keeps
  the other runs.
\<close>

function runs :: "('a \<Rightarrow> bool) \<Rightarrow> 'a list \<Rightarrow> (bool \<times> 'a list) list" where
  "runs P [] = []"
| "runs P (x # xs) =
     (P x, x # takeWhile (\<lambda>y. P y = P x) xs) # runs P (dropWhile (\<lambda>y. P y = P x) xs)"
  by pat_completeness auto
termination
  by (relation "measure (\<lambda>(P, xs). length xs)") (auto simp: length_dropWhile_le less_Suc_eq_le)

definition underscore_runs :: "string \<Rightarrow> string" where
  "underscore_runs s =
     concat (map (\<lambda>r. if fst r then ''_'' else snd r) (runs is_space s))"

definition normalize :: "string \<Rightarrow> string \<Rightarrow> string" where
  "normalize prefix ttl = take 64 (prefix @ ''_'' @ toLowerCase (underscore_runs ttl))"

section \<open>The readable type names, in the words of the specification\<close>

text \<open>The fixed set of labels, and the label of each kind of schema.\<close>

datatype type_label =
    LString | LNumber | LBoolean | LArray | LObject | LEnum | LLiteral | LUnion | LAny
  | LRecord type_label type_label

fun render :: "type_label \<Rightarrow> string" where
  "render LString = ''string''"
| "render LNumber = ''number''"
| "render LBoolean = ''boolean''"
| "render LArray = ''array''"
| "render LObject = ''object''"
| "render LEnum = ''enum''"
| "render LLiteral = ''literal''"
| "render LUnion = ''union''"
| "render LAny = ''any''"
| "render (LRecord k v) = ''record<'' @ render k @ '', '' @ render v @ ''>''"

fun label_of :: "zod \<Rightarrow> type_label" where
  "label_of (ZodOptional _ t) = label_of t"
| "label_of (ZodDefault _ t _) = label_of t"
| "label_of (ZodRecord _ k v) = LRecord (label_of k) (label_of v)"
| "label_of (ZodString _) = LString"
| "label_of (ZodNumber _) = LNumber"
| "label_of (ZodBoolean _) = LBoolean"
| "label_of (ZodArray _ _) = LArray"
| "label_of (ZodObject _ _) = LObject"
| "label_of (ZodEnum _ _) = LEnum"
| "label_of (ZodLiteral _ _) = LLiteral"
| "label_of (ZodUnion _ _) = LUnion"
| "label_of _ = LAny"

section \<open>Shapes as mappings\<close>

text \<open>
  An object has each of its keys once: \<open>well_formed\<close> says so of the shapes that
  \<open>schemaToRawShape\<close> reads. \<open>field_map\<close> is the mapping from names to schemas that a shape
  stands for; a missing shape has no fields.
\<close>

fun well_formed :: "zod \<Rightarrow> bool" where
  "well_formed (ZodObject _ shape) = distinct (map fst shape)"
| "well_formed (ZodIntersection _ l r) = (well_formed l \<and> well_formed r)"
| "well_formed _ = True"

definition field_map :: "(string \<times> zod) list option \<Rightarrow> (string \<rightharpoonup> zod)" where
  "field_map shape = map_of (own_properties shape)"

definition instanceof_ZodObject :: "zod \<Rightarrow> bool" where
  "instanceof_ZodObject z = (case z of ZodObject _ _ \<Rightarrow> True | _ \<Rightarrow> False)"

definition instanceof_ZodIntersection :: "zod \<Rightarrow> bool" where
  "instanceof_ZodIntersection z = (case z of ZodIntersection _ _ _ \<Rightarrow> True | _ \<Rightarrow> False)"

definition instanceof_ToolError :: "js_error \<Rightarrow> bool" where
  "instanceof_ToolError e = (case e of ToolError _ \<Rightarrow> True | Error _ \<Rightarrow> False)"

section \<open>The line of a field, in the words of the specification\<close>

text \<open>
  What the formatter finds on its way through the wrappers of a field: whether there is
  a wrapper at all, the default of the innermost \<open>default\<close> wrapper, and the first
  description that is not empty.
\<close>

fun wrapped :: "zod \<Rightarrow> bool" where
  "wrapped (ZodOptional _ _) = True"
| "wrapped (ZodDefault _ _ _) = True"
| "wrapped _ = False"

fun found_default :: "zod \<Rightarrow> json option" where
  "found_default (ZodOptional _ t) = found_default t"
| "found_default (ZodDefault _ t v) =
     (case found_default t of None \<Rightarrow> Some v | Some v' \<Rightarrow> Some v')"
| "found_default _ = None"

fun found_description :: "zod \<Rightarrow> string option" where
  "found_description (ZodOptional d t) = (if truthy d then d else found_description t)"
| "found_description (ZodDefault d t _) = (if truthy d then d else found_description t)"
| "found_description t = (if truthy (description t) then description t else None)"

definition schema_line :: "string \<Rightarrow> zod \<Rightarrow> string" where
  "schema_line key field =
     ''- '' @ key @ '' ('' @ getReadableTypeName field @ '')'' @
     (if wrapped field then [] else '' *required*'') @
     (case found_description field of None \<Rightarrow> [] | Some d \<Rightarrow> '': '' @ d) @
     (case found_default field of
        None \<Rightarrow> []
      | Some v \<Rightarrow> '' (default: '' @ stringify v @ '')'')"

section \<open>The fixtures of the unit tests\<close>

definition test_client :: client where
  "test_client = \<lparr>name = ''Test Product'', toolPrefix = ''test_product'', isConfigured = True\<rparr>"

definition test_params :: tool_params where
  "test_params =
     \<lparr>title = ''Test Tool'', summary = ''A test tool'', parameters = None,
      inputSchema = None, outputSchema = None, useCases = None, examples = None,
      hints = None, outputDescription = None, readOnly = None, destructive = None,
      idempotent = None, openWorld = None\<rparr>"

definition values_schema :: zod where
  "values_schema =
     ZodObject None
       [(''values'', ZodArray (Some ''List of values'')
                      (ZodObject None [(''id'', ZodString None), (''name'', ZodString None)]))]"

definition output_params :: tool_params where
  "output_params =
     test_params\<lparr>title := ''Get values'', summary := ''Tool using output schema'',
                  outputSchema := Some values_schema\<rparr>"

definition empty_world :: "unit world" where
  "empty_world = \<lparr>notifications = [], cb_calls = []\<rparr>"

text \<open>A tool whose input schema is the intersection of two object schemas, and the same
  tool with the fields in one object schema.\<close>

definition query_field :: "string \<times> zod" where
  "query_field = (''query'', ZodString (Some ''text to find''))"

definition limit_field :: "string \<times> zod" where
  "limit_field = (''limit'', ZodDefault None (ZodNumber None) (JNum 10))"

definition intersection_params :: tool_params where
  "intersection_params =
     test_params\<lparr>title := ''Search values'', summary := ''Search the values'',
                  inputSchema := Some (ZodIntersection None
                                         (ZodObject None [query_field])
                                         (ZodObject None [limit_field]))\<rparr>"

definition object_params :: tool_params where
  "object_params =
     intersection_params\<lparr>inputSchema := Some (ZodObject None [query_field, limit_field])\<rparr>"

section \<open>Properties of the tool name\<close>

lemma replace_ws_skip:
  "replace_ws cs =
     takeWhile (\<lambda>c. \<not> is_space c) cs @ replace_ws (dropWhile (\<lambda>c. \<not> is_space c) cs)"
  by (induction cs) auto

text \<open>The replacement by the regular expression is the replacement of the runs of
  whitespace.\<close>

lemma replace_ws_runs: "replace_ws s = underscore_runs s"
proof (induction "is_space" s rule: runs.induct)
  case 1
  show ?case by (simp add: underscore_runs_def)
next
  case (2 c cs)
  show ?case
  proof (cases "is_space c")
    case True
    then have eq: "(\<lambda>y. is_space y = is_space c) = is_space" by auto
    from 2 True show ?thesis by (simp add: underscore_runs_def eq)
  next
    case False
    then have eq: "(\<lambda>y. is_space y = is_space c) = (\<lambda>y. \<not> is_space y)" by auto
    have "replace_ws (c # cs) = c # replace_ws cs" using False by simp
    also have "\<dots> = c # takeWhile (\<lambda>y. \<not> is_space y) cs @
                       replace_ws (dropWhile (\<lambda>y. \<not> is_space y) cs)"
      using replace_ws_skip [of cs] by simp
    also have "\<dots> = underscore_runs (c # cs)"
      using 2 False by (simp add: underscore_runs_def eq)
    finally show ?thesis .
  qed
qed

lemma toolName_take: "toolName p t = take 64 (rawToolName p t)"
  by (simp add: toolName_def Let_def)

text \<open>
  Claim C6. For every prefix and title, the registered tool name is the prefix, an
  underscore, and the title with each run of whitespace replaced by one underscore and
  then lower-cased, cut to at most 64 characters. For the prefix \<open>test_product\<close> and the
  long title of the test it is exactly the first 64 characters of that string. The name
  is a total function of the prefix and the title.
\<close>

theorem toolName_normalize:
  "toolName prefix ttl = normalize prefix ttl
   \<and> length (toolName prefix ttl) \<le> 64
   \<and> toolName ''test_product''
        ''This is a really long tool title that should be truncated by the server''
      = take 64 ''test_product_this_is_a_really_long_tool_title_that_should_be_truncated_by_the_server''
   \<and> length (toolName ''test_product''
        ''This is a really long tool title that should be truncated by the server'') = 64"
proof (intro conjI)
  show "toolName prefix ttl = normalize prefix ttl"
    by (simp add: toolName_take rawToolName_def normalize_def replace_ws_runs)
  show "length (toolName prefix ttl) \<le> 64"
    by (simp add: toolName_take)
  show "toolName ''test_product''
        ''This is a really long tool title that should be truncated by the server''
      = take 64 ''test_product_this_is_a_really_long_tool_title_that_should_be_truncated_by_the_server''"
    by code_simp
  show "length (toolName ''test_product''
        ''This is a really long tool title that should be truncated by the server'') = 64"
    by code_simp
qed

section \<open>Properties of the readable type names\<close>

lemma label_of_unwrapZodType: "label_of (unwrapZodType z) = label_of z"
  by (induction z rule: unwrapZodType.induct) simp_all

lemma unwrapZodType_not_Optional: "unwrapZodType z \<noteq> ZodOptional d t"
  by (induction z rule: unwrapZodType.induct) simp_all

lemma unwrapZodType_not_Default: "unwrapZodType z \<noteq> ZodDefault d t v"
  by (induction z rule: unwrapZodType.induct) simp_all

lemma getReadableTypeName_label: "getReadableTypeName z = render (label_of z)"
proof (induction z rule: getReadableTypeName.induct)
  case (1 z)
  have l: "label_of z = label_of (unwrapZodType z)"
    by (simp add: label_of_unwrapZodType)
  show ?case
  proof (cases "unwrapZodType z")
    case (ZodRecord d k v)
    with 1 l show ?thesis by (simp add: getReadableTypeName.simps [of z])
  next
    case (ZodOptional d t)
    then show ?thesis by (simp add: unwrapZodType_not_Optional)
  next
    case (ZodDefault d t v)
    then show ?thesis by (simp add: unwrapZodType_not_Default)
  qed (use l in \<open>simp_all add: getReadableTypeName.simps [of z]\<close>)
qed

text \<open>
  Claim C8. For every schema, \<open>getReadableTypeName\<close> returns a value (it is total: no
  schema makes it fail) and, after the optional and default wrappers are taken off, the
  value is a member of the fixed set of labels: string, number, boolean, array, object, enum,
  literal, union, any, or \<open>record<K, V>\<close> with the labels of the key and value schemas.
  A kind that is not recognized (an intersection, any other class) gives \<open>any\<close>.
\<close>

theorem getReadableTypeName_total:
  "getReadableTypeName z = render (label_of z)
   \<and> getReadableTypeName (ZodOptional d z) = getReadableTypeName z
   \<and> getReadableTypeName (ZodDefault d z v) = getReadableTypeName z
   \<and> getReadableTypeName (ZodRecord d k e) =
       ''record<'' @ getReadableTypeName k @ '', '' @ getReadableTypeName e @ ''>''
   \<and> getReadableTypeName (ZodAny d) = ''any''
   \<and> getReadableTypeName (ZodIntersection d l r) = ''any''
   \<and> getReadableTypeName (ZodOther d c) = ''any''"
  by (simp add: getReadableTypeName_label)

section \<open>Properties of the flattening of schemas\<close>

lemma map_of_assign:
  "distinct (map fst src) \<Longrightarrow> map_of (assign target src) = map_of target ++ map_of src"
proof (induction src arbitrary: target)
  case Nil
  show ?case by (simp add: assign_def)
next
  case (Cons kv src)
  have notin: "fst kv \<notin> dom (map_of src)"
    using Cons.prems by (simp add: dom_map_of_conv_image_fst)
  have "map_of (assign target (kv # src)) =
        map_of (assign (AList.update (fst kv) (snd kv) target) src)"
    by (simp add: assign_def)
  also have "\<dots> = map_of (AList.update (fst kv) (snd kv) target) ++ map_of src"
    using Cons by simp
  also have "\<dots> = (map_of target)(fst kv \<mapsto> snd kv) ++ map_of src"
    by (simp add: update_conv')
  also have "\<dots> = map_of target ++ map_of (kv # src)"
    using notin by (auto simp: map_add_def fun_eq_iff split: option.splits)
  finally show ?case .
qed

lemma distinct_assign:
  "distinct (map fst target) \<Longrightarrow> distinct (map fst (assign target src))"
  by (induction src arbitrary: target) (simp_all add: assign_def distinct_update)

lemma distinct_spread: "distinct (map fst (spread a b))"
  by (simp add: spread_def distinct_assign)

lemma map_of_spread:
  "distinct (map fst (own_properties a)) \<Longrightarrow> distinct (map fst (own_properties b)) \<Longrightarrow>
   map_of (spread a b) = map_of (own_properties a) ++ map_of (own_properties b)"
  by (simp add: spread_def map_of_assign)

lemma distinct_schemaToRawShape:
  "well_formed z \<Longrightarrow> distinct (map fst (own_properties (schemaToRawShape (Some z))))"
  by (cases z) (simp_all add: own_properties_def distinct_spread Let_def)

lemma field_map_intersection:
  assumes "well_formed A" and "well_formed B"
  shows "field_map (schemaToRawShape (Some (ZodIntersection d A B))) =
           field_map (schemaToRawShape (Some A)) ++ field_map (schemaToRawShape (Some B))"
  using assms
  by (simp add: field_map_def Let_def own_properties_def [of "Some _"] map_of_spread
      distinct_schemaToRawShape)

text \<open>
  Claim C7. For all schemas \<open>A\<close> and \<open>B\<close> (whose object shapes have each key once), the
  flattening of their intersection is the field-wise union of the flattening of \<open>A\<close> and
  the flattening of \<open>B\<close>, and on a name that both have the field of \<open>B\<close> wins. The
  flattening of an object schema is its shape; the flattening of a schema of any other
  kind, and of a missing schema, is undefined.
\<close>

theorem schemaToRawShape_flatten:
  assumes "well_formed A" and "well_formed B"
  shows "field_map (schemaToRawShape (Some (ZodIntersection d A B))) =
           field_map (schemaToRawShape (Some A)) ++ field_map (schemaToRawShape (Some B))
         \<and> field_map (schemaToRawShape (Some (ZodIntersection d A B))) k =
             (case field_map (schemaToRawShape (Some B)) k of
                Some f \<Rightarrow> Some f
              | None \<Rightarrow> field_map (schemaToRawShape (Some A)) k)
         \<and> schemaToRawShape (Some (ZodObject d' shape)) = Some shape
         \<and> schemaToRawShape None = None
         \<and> (if instanceof_ZodObject z \<or> instanceof_ZodIntersection z
             then schemaToRawShape (Some z) \<noteq> None
             else schemaToRawShape (Some z) = None)"
proof (intro conjI)
  show u: "field_map (schemaToRawShape (Some (ZodIntersection d A B))) =
           field_map (schemaToRawShape (Some A)) ++ field_map (schemaToRawShape (Some B))"
    using assms by (rule field_map_intersection)
  show "field_map (schemaToRawShape (Some (ZodIntersection d A B))) k =
          (case field_map (schemaToRawShape (Some B)) k of
             Some f \<Rightarrow> Some f
           | None \<Rightarrow> field_map (schemaToRawShape (Some A)) k)"
    by (subst u) (simp add: map_add_def)
  show "schemaToRawShape (Some (ZodObject d' shape)) = Some shape" by simp
  show "schemaToRawShape None = None" by simp
  show "if instanceof_ZodObject z \<or> instanceof_ZodIntersection z
        then schemaToRawShape (Some z) \<noteq> None
        else schemaToRawShape (Some z) = None"
    by (cases z)
      (simp_all add: instanceof_ZodObject_def instanceof_ZodIntersection_def Let_def)
qed

theorem schemaToRawShape_flatten_witness:
  "well_formed (ZodObject None [(''a'', ZodString None), (''b'', ZodString None)])
   \<and> well_formed (ZodObject None [(''c'', ZodNumber None), (''a'', ZodNumber None)])
   \<and> field_map (schemaToRawShape (Some (ZodIntersection None
        (ZodObject None [(''a'', ZodString None), (''b'', ZodString None)])
        (ZodObject None [(''c'', ZodNumber None), (''a'', ZodNumber None)])))) ''a''
      = Some (ZodNumber None)
   \<and> field_map (schemaToRawShape (Some (ZodIntersection None
        (ZodObject None [(''a'', ZodString None), (''b'', ZodString None)])
        (ZodObject None [(''c'', ZodNumber None), (''a'', ZodNumber None)])))) ''b''
      = Some (ZodString None)"
proof -
  let ?A = "ZodObject None [(''a'', ZodString None), (''b'', ZodString None)]"
  let ?B = "ZodObject None [(''c'', ZodNumber None), (''a'', ZodNumber None)]"
  have a: "well_formed ?A" by simp
  have b: "well_formed ?B" by simp
  from schemaToRawShape_flatten [OF a b, of None "''a''"]
    schemaToRawShape_flatten [OF a b, of None "''b''"]
  show ?thesis by (simp add: field_map_def own_properties_def)
qed

section \<open>Properties of the invocation\<close>

text \<open>
  Claim C2. For every invocation in which the client's callback, or the check of the
  configuration, raises a \<open>ToolError\<close> with message \<open>m\<close>, the handler returns the result
  with \<open>isError\<close> true and the one text item \<open>Error executing\<close>, the title of the tool, a
  colon and \<open>m\<close>, and it sends no notification.
\<close>

theorem handler_ToolError:
  assumes "\<not> isConfigured cl \<and> m = not_configured_message (name cl)
           \<or> isConfigured cl \<and> cb args = Throws (ToolError m)"
  shows "fst (handler cl params cb args w) =
           Inr (Result \<lparr>isError = Some True,
                        content = Some [TextContent (''Error executing '' @
                                    toolTitle (name cl) (title params) @ '': '' @ m)],
                        structuredContent = None\<rparr>)
         \<and> notifications (snd (handler cl params cb args w)) = notifications w"
  using assms by (auto simp: handler_def try_block_def)

theorem handler_ToolError_witness:
  "isConfigured test_client
   \<and> fst (handler test_client test_params
            (\<lambda>_. Throws (ToolError ''Tool error from registerCbMock'')) () empty_world) =
       Inr (Result \<lparr>isError = Some True,
                    content = Some [TextContent
                      ''Error executing Test Product: Test Tool: Tool error from registerCbMock''],
                    structuredContent = None\<rparr>)
   \<and> notifications (snd (handler test_client test_params
            (\<lambda>_. Throws (ToolError ''Tool error from registerCbMock'')) () empty_world)) = []
   \<and> fst (handler (test_client\<lparr>isConfigured := False\<rparr>) test_params
            (\<lambda>_. Resolves Undefined) () empty_world) =
       Inr (Result \<lparr>isError = Some True,
                    content = Some [TextContent (''Error executing Test Product: Test Tool: '' @
                                not_configured_message ''Test Product'')],
                    structuredContent = None\<rparr>)"
proof -
  have c: "isConfigured test_client" by (simp add: test_client_def)
  from handler_ToolError
         [where cl = test_client and m = "''Tool error from registerCbMock''"
            and cb = "\<lambda>_. Throws (ToolError ''Tool error from registerCbMock'')"
            and args = "()" and params = test_params and w = empty_world]
       handler_ToolError
         [where cl = "test_client\<lparr>isConfigured := False\<rparr>"
            and m = "not_configured_message ''Test Product''"
            and cb = "\<lambda>_. Resolves Undefined"
            and args = "()" and params = test_params and w = empty_world] c
  show ?thesis
    by (simp add: test_client_def test_params_def toolTitle_def empty_world_def)
qed

text \<open>
  Claim C3. For every invocation in which the callback resolves a result that is not an
  error, while the parameters of the tool declare an output schema and the result has no
  structured content, the handler throws the error whose message is \<open>The result of the
  tool '\<close>, the title, \<open>' must include 'structuredContent'\<close>; the sink receives exactly one
  notification, and the failure is not turned into a result.
\<close>

theorem handler_contract_error:
  assumes "isConfigured cl" and "cb args = Resolves (Result r)"
    and "isError r \<noteq> Some True" and "outputSchema params \<noteq> None"
    and "structuredContent r = None"
  shows "fst (handler cl params cb args w) =
           Inl (Error (''The result of the tool '' @ [CHR 0x27] @ title params @ [CHR 0x27] @
                       '' must include '' @ [CHR 0x27] @ ''structuredContent'' @ [CHR 0x27]))
         \<and> notifications (snd (handler cl params cb args w)) =
             notifications w @
               [\<lparr>error = Error (''The result of the tool '' @ [CHR 0x27] @ title params @
                          [CHR 0x27] @ '' must include '' @ [CHR 0x27] @
                          ''structuredContent'' @ [CHR 0x27]),
                 app_tool = toolName (toolPrefix cl) (title params), unhandled = True\<rparr>]"
  using assms by (auto simp: handler_def try_block_def validateCallbackResult_def)

theorem handler_contract_error_witness:
  "outputSchema output_params \<noteq> None
   \<and> fst (handler test_client output_params
        (\<lambda>_. Resolves (Result \<lparr>isError = Some False, content = None,
                                structuredContent = None\<rparr>)) () empty_world) =
       Inl (Error (''The result of the tool '' @ [CHR 0x27] @ ''Get values'' @ [CHR 0x27] @
                   '' must include '' @ [CHR 0x27] @ ''structuredContent'' @ [CHR 0x27]))
   \<and> length (notifications (snd (handler test_client output_params
        (\<lambda>_. Resolves (Result \<lparr>isError = Some False, content = None,
                                structuredContent = None\<rparr>)) () empty_world))) = 1"
proof -
  let ?r = "\<lparr>isError = Some False, content = None, structuredContent = None\<rparr>"
  have c: "isConfigured test_client" by (simp add: test_client_def)
  have s: "outputSchema output_params \<noteq> None" by (simp add: output_params_def)
  from handler_contract_error
         [where cl = test_client and cb = "\<lambda>_. Resolves (Result ?r)" and args = "()"
            and r = ?r and params = output_params and w = empty_world] c s
  show ?thesis by (simp add: output_params_def test_params_def empty_world_def)
qed

text \<open>
  Claim C4. For every invocation in which the callback raises an error that is not a
  \<open>ToolError\<close>, the handler sends exactly one notification, which carries the error, the
  name of the tool as metadata and the mark \<open>unhandled\<close>, and then throws the same error
  to the host; the error is not turned into a result.
\<close>

theorem handler_unexpected_error:
  assumes "isConfigured cl" and "cb args = Throws e" and "\<not> instanceof_ToolError e"
  shows "fst (handler cl params cb args w) = Inl e
         \<and> notifications (snd (handler cl params cb args w)) =
             notifications w @
               [\<lparr>error = e, app_tool = toolName (toolPrefix cl) (title params),
                 unhandled = True\<rparr>]"
  using assms
  by (auto simp: handler_def try_block_def instanceof_ToolError_def split: js_error.splits)

theorem handler_unexpected_error_witness:
  "\<not> instanceof_ToolError (Error ''Unexpected error from registerCbMock'')
   \<and> fst (handler test_client test_params
        (\<lambda>_. Throws (Error ''Unexpected error from registerCbMock'')) () empty_world) =
       Inl (Error ''Unexpected error from registerCbMock'')
   \<and> notifications (snd (handler test_client test_params
        (\<lambda>_. Throws (Error ''Unexpected error from registerCbMock'')) () empty_world)) =
       [\<lparr>error = Error ''Unexpected error from registerCbMock'',
         app_tool = ''test_product_test_tool'', unhandled = True\<rparr>]"
proof -
  let ?e = "Error ''Unexpected error from registerCbMock''"
  have c: "isConfigured test_client" by (simp add: test_client_def)
  have i: "\<not> instanceof_ToolError ?e" by (simp add: instanceof_ToolError_def)
  have t: "toolName ''test_product'' ''Test Tool'' = ''test_product_test_tool''"
    by code_simp
  from handler_unexpected_error
         [where cl = test_client and cb = "\<lambda>_. Throws ?e" and args = "()" and e = ?e
            and params = test_params and w = empty_world] c i t
  show ?thesis by (simp add: test_client_def test_params_def empty_world_def)
qed

text \<open>
  Claim C5. For every invocation in which the client says that it is not configured,
  the handler returns a result with \<open>isError\<close> true whose text holds the fixed sentence
  \<open>The tool is not configured - configuration options for\<close>, the name of the client, \<open>are
  missing or invalid.\<close>; it sends no notification and does not call the callback.
\<close>

theorem handler_not_configured:
  assumes "\<not> isConfigured cl"
  shows "fst (handler cl params cb args w) =
           Inr (Result \<lparr>isError = Some True,
                        content = Some [TextContent (''Error executing '' @
                          toolTitle (name cl) (title params) @ '': '' @
                          ''The tool is not configured - configuration options for '' @
                          name cl @ '' are missing or invalid.'')],
                        structuredContent = None\<rparr>)
         \<and> notifications (snd (handler cl params cb args w)) = notifications w
         \<and> cb_calls (snd (handler cl params cb args w)) = cb_calls w"
  using assms by (auto simp: handler_def try_block_def not_configured_message_def)

theorem handler_not_configured_witness:
  "\<not> isConfigured (test_client\<lparr>isConfigured := False\<rparr>)
   \<and> fst (handler (test_client\<lparr>isConfigured := False\<rparr>) test_params
        (\<lambda>_. Resolves (Result \<lparr>isError = None, content = Some [TextContent ''done''],
                                structuredContent = None\<rparr>)) () empty_world) =
       Inr (Result \<lparr>isError = Some True,
                    content = Some [TextContent
                      ''Error executing Test Product: Test Tool: The tool is not configured - configuration options for Test Product are missing or invalid.''],
                    structuredContent = None\<rparr>)
   \<and> notifications (snd (handler (test_client\<lparr>isConfigured := False\<rparr>) test_params
        (\<lambda>_. Resolves (Result \<lparr>isError = None, content = Some [TextContent ''done''],
                                structuredContent = None\<rparr>)) () empty_world)) = []
   \<and> cb_calls (snd (handler (test_client\<lparr>isConfigured := False\<rparr>) test_params
        (\<lambda>_. Resolves (Result \<lparr>isError = None, content = Some [TextContent ''done''],
                                structuredContent = None\<rparr>)) () empty_world)) = []"
proof -
  have c: "\<not> isConfigured (test_client\<lparr>isConfigured := False\<rparr>)" by simp
  from handler_not_configured
         [where cl = "test_client\<lparr>isConfigured := False\<rparr>" and params = test_params
            and cb = "\<lambda>_. Resolves (Result \<lparr>isError = None,
                        content = Some [TextContent ''done''], structuredContent = None\<rparr>)"
            and args = "()" and w = empty_world] c
  show ?thesis
    by (simp add: test_client_def test_params_def toolTitle_def empty_world_def)
qed

text \<open>
  Claim C9. For every result in which the structured content is present and the content
  is empty (or missing), the content of the returned result is exactly one text item
  with the JSON serialization of the structured content; when the content is not empty
  or the structured content is missing, the result is left as it is. The handler returns
  the result so completed.
\<close>

theorem addStructuredContentAsText_content:
  "(structuredContent r = Some sc \<and> (content r = None \<or> content r = Some []) \<longrightarrow>
      addStructuredContentAsText r =
        r\<lparr>content := Some [TextContent (stringify (JObj sc))]\<rparr>)
   \<and> (structuredContent r = None \<or> (\<exists>c cs. content r = Some (c # cs)) \<longrightarrow>
      addStructuredContentAsText r = r)
   \<and> (isConfigured cl \<and> cb args = Resolves (Result r) \<and>
        validateCallbackResult r params = Inr () \<longrightarrow>
      fst (handler cl params cb args w) = Inr (Result (addStructuredContentAsText r)))"
  by (auto simp: addStructuredContentAsText_def handler_def try_block_def
      split: option.splits)

theorem addStructuredContentAsText_content_witness:
  "fst (handler test_client output_params
     (\<lambda>_. Resolves (Result \<lparr>isError = Some False, content = None,
        structuredContent = Some [(''values'', JArr [JObj [(''id'', JStr ''1'')]])]\<rparr>))
     () empty_world) =
   Inr (Result \<lparr>isError = Some False,
      content = Some [TextContent
        (''{'' @ [CHR 0x22] @ ''values'' @ [CHR 0x22] @ '':[{'' @ [CHR 0x22] @ ''id'' @
         [CHR 0x22] @ '':'' @ [CHR 0x22] @ ''1'' @ [CHR 0x22] @ ''}]}'')],
      structuredContent = Some [(''values'', JArr [JObj [(''id'', JStr ''1'')]])]\<rparr>)
   \<and> addStructuredContentAsText
       \<lparr>isError = None, content = Some [TextContent ''done''],
        structuredContent = Some [(''values'', JArr [])]\<rparr> =
       \<lparr>isError = None, content = Some [TextContent ''done''],
        structuredContent = Some [(''values'', JArr [])]\<rparr>"
proof -
  let ?sc = "[(''values'', JArr [JObj [(''id'', JStr ''1'')]])]"
  let ?r = "\<lparr>isError = Some False, content = None, structuredContent = Some ?sc\<rparr>"
  let ?q = "\<lparr>isError = None, content = Some [TextContent ''done''],
             structuredContent = Some [(''values'', JArr [])]\<rparr>"
  let ?cb = "\<lambda>_ :: unit. Resolves (Result ?r)"
  note inst = addStructuredContentAsText_content
         [where r = ?r and sc = ?sc and cl = test_client and cb = ?cb and args = "()"
            and params = output_params and w = empty_world]
  note inst' = addStructuredContentAsText_content
         [where r = ?q and sc = ?sc and cl = test_client and cb = ?cb and args = "()"
            and params = output_params and w = empty_world]
  have c: "isConfigured test_client" by (simp add: test_client_def)
  have v: "validateCallbackResult ?r output_params = Inr ()"
    by (simp add: validateCallbackResult_def)
  have s: "stringify (JObj ?sc) =
           ''{'' @ [CHR 0x22] @ ''values'' @ [CHR 0x22] @ '':[{'' @ [CHR 0x22] @ ''id'' @
           [CHR 0x22] @ '':'' @ [CHR 0x22] @ ''1'' @ [CHR 0x22] @ ''}]}''"
    by code_simp
  have h: "fst (handler test_client output_params ?cb () empty_world) =
           Inr (Result (addStructuredContentAsText ?r))"
    using inst c v by blast
  have a: "addStructuredContentAsText ?r =
           ?r\<lparr>content := Some [TextContent (stringify (JObj ?sc))]\<rparr>"
    using inst by simp
  have q: "addStructuredContentAsText ?q = ?q"
    using inst' by simp
  show ?thesis
    unfolding h a s q by simp
qed

text \<open>
  Claim C10. For every invocation in which the client is configured and the callback
  resolves to a missing result (\<open>undefined\<close> or \<open>null\<close>), the handler returns that value
  as it is: nothing is validated, whether or not the parameters declare an output
  schema, no content is made, and no notification is sent.
\<close>

theorem handler_absent_result:
  assumes "isConfigured cl" and "cb args = Resolves v" and "v = Undefined \<or> v = Null"
  shows "handler cl params cb args w = (Inr v, w\<lparr>cb_calls := cb_calls w @ [args]\<rparr>)
         \<and> notifications (snd (handler cl params cb args w)) = notifications w"
  using assms by (auto simp: handler_def try_block_def)

theorem handler_absent_result_witness:
  "outputSchema output_params \<noteq> None
   \<and> fst (handler test_client output_params (\<lambda>_. Resolves Undefined) () empty_world) =
       Inr Undefined
   \<and> fst (handler test_client output_params (\<lambda>_. Resolves Null) () empty_world) = Inr Null
   \<and> notifications (snd (handler test_client output_params (\<lambda>_. Resolves Null) ()
        empty_world)) = []"
proof -
  have c: "isConfigured test_client" by (simp add: test_client_def)
  have s: "outputSchema output_params \<noteq> None" by (simp add: output_params_def)
  from handler_absent_result
         [where cl = test_client and cb = "\<lambda>_. Resolves Undefined" and args = "()"
            and v = Undefined and params = output_params and w = empty_world]
       handler_absent_result
         [where cl = test_client and cb = "\<lambda>_. Resolves Null" and args = "()"
            and v = Null and params = output_params and w = empty_world] c s
  show ?thesis by (simp add: empty_world_def)
qed

section \<open>Properties of the description\<close>

lemma getReadableTypeName_Optional:
  "getReadableTypeName (ZodOptional d t) = getReadableTypeName t"
  by (simp add: getReadableTypeName_label)

lemma getReadableTypeName_Default:
  "getReadableTypeName (ZodDefault d t v) = getReadableTypeName t"
  by (simp add: getReadableTypeName_label)

lemma showNat_nonempty: "showNat n \<noteq> []"
  by (subst showNat.simps) simp

lemma stringify_nonempty: "stringify v \<noteq> []"
  by (cases v) (simp_all add: showInt_def showNat_nonempty quote_def)

lemma found_description_nonempty: "found_description f = Some d \<Longrightarrow> d \<noteq> []"
  by (induction f rule: found_description.induct)
    (auto simp: truthy_def split: if_splits option.splits)

text \<open>The formatter with its accumulators: what it was given, and what it finds.\<close>

lemma formatParameterDescription_acc:
  "formatParameterDescription key f descr isOpt dv =
     ''- '' @ key @ '' ('' @ getReadableTypeName f @ '')'' @
     (if isOpt \<or> wrapped f then [] else '' *required*'') @
     if_truthy (case descr of Some x \<Rightarrow> Some x | None \<Rightarrow> found_description f) '': '' [] @
     if_truthy (case found_default f of Some v \<Rightarrow> Some (stringify v) | None \<Rightarrow> dv)
       '' (default: '' '')''"
proof (induction key f descr isOpt dv rule: formatParameterDescription.induct)
  case (1 key d field descr isOptional defaultValue)
  then show ?case
    by (auto simp: coalesce_def truthy_def getReadableTypeName_Optional split: option.splits)
next
  case (2 key d field v descr isOptional defaultValue)
  then show ?case
    by (auto simp: coalesce_def truthy_def getReadableTypeName_Default split: option.splits)
qed (auto simp: coalesce_def truthy_def split: option.splits)

text \<open>
  The line of a field of an object schema is the line of the specification: the key, the
  readable type name, \<open>*required*\<close> only when no optional and no default wrapper was
  found, the description if there is one, and the default if one was found.
\<close>

lemma formatParameterDescription_line:
  "formatParameterDescription key f None False None = schema_line key f"
proof -
  have d: "if_truthy (found_description f) '': '' [] =
           (case found_description f of None \<Rightarrow> [] | Some d \<Rightarrow> '': '' @ d)"
    by (auto simp: if_truthy_def dest: found_description_nonempty split: option.splits)
  have v: "if_truthy (case found_default f of Some v \<Rightarrow> Some (stringify v) | None \<Rightarrow> None)
             '' (default: '' '')'' =
           (case found_default f of
              None \<Rightarrow> []
            | Some v \<Rightarrow> '' (default: '' @ stringify v @ '')'')"
    by (simp add: if_truthy_def stringify_nonempty split: option.splits)
  show ?thesis
    unfolding formatParameterDescription_acc schema_line_def using d v by simp
qed

text \<open>For an object schema and no other section, the description is the summary, the
  header and one line for each field, in the order of the shape.\<close>

lemma getDescription_object:
  assumes "inputSchema params = Some (ZodObject d shape)"
    and "parameters params = None" and "outputDescription params = None"
    and "useCases params = None" and "examples params = None" and "hints params = None"
  shows "getDescription params =
           trim (summary params @ nl @ nl @ ''**Parameters:**'' @ nl @
                 join nl (map (\<lambda>kv. schema_line (fst kv) (snd kv)) shape))"
  using assms
  by (simp add: getDescription_def if_truthy_def formatParameterDescription_line)

text \<open>
  Claim C1. For every tool whose input schema flattens to a shape (an object schema, or
  an intersection of schemas that flatten to shapes), the description holds the header
  \<open>**Parameters:**\<close> and one line for each field. The code writes the section for an
  object schema only. Here are the values at a tool whose input schema is the
  intersection of two object schemas: the schema flattens to the two fields, the
  registered input schema has the two fields, and the description is the summary alone;
  with the same two fields in one object schema the description has the section.
\<close>

theorem getDescription_intersection:
  "schemaToRawShape (inputSchema intersection_params) = Some [query_field, limit_field]
   \<and> getInputSchema intersection_params = [query_field, limit_field]
   \<and> getDescription intersection_params = ''Search the values''
   \<and> getDescription object_params =
       ''Search the values'' @ nl @ nl @ ''**Parameters:**'' @ nl @
       ''- query (string) *required*: text to find'' @ nl @
       ''- limit (number) (default: 10)''"
proof (intro conjI)
  show "schemaToRawShape (inputSchema intersection_params) = Some [query_field, limit_field]"
    by code_simp
  show "getInputSchema intersection_params = [query_field, limit_field]"
    by code_simp
  show "getDescription intersection_params = ''Search the values''"
    by code_simp
  show "getDescription object_params =
       ''Search the values'' @ nl @ nl @ ''**Parameters:**'' @ nl @
       ''- query (string) *required*: text to find'' @ nl @
       ''- limit (number) (default: 10)''"
    by code_simp
qed

end
